theory Spec2Isabelle
  imports Main
begin

section \<open>The chief keeper: data model\<close>

text \<open>
  The keeper of \<^verbatim>\<open>chief_keeper/chief_keeper.py\<close> watches the leader (``the hat'') of
  an approval-voting contract, schedules the leader's action (``spell'') and casts it
  when its eta has come. What it has done is cached in a TinyDB file through
  \<^verbatim>\<open>chief_keeper/database.py\<close>. Python integers are \<open>int\<close>, addresses are the
  strings the code compares.
\<close>

type_synonym address = string

text \<open>
  Modelled from the spec: \<^verbatim>\<open>chief_keeper/spell.py\<close>, which declares
  \<^verbatim>\<open>zero_address\<close> and the class \<^verbatim>\<open>DSSSpell\<close>, is not among the sources. The
  spec calls the constant the null-address, the sentinel for ``no leader yet''.
\<close>

definition zero_address :: address where
  "zero_address = ''0x0000000000000000000000000000000000000000''"

text \<open>An object of class \<^verbatim>\<open>DSSSpell\<close>: the action contract at an address.\<close>

datatype spell = DSSSpell (spell_address: address)

text \<open>The dictionary stored under the key \<^verbatim>\<open>'hat'\<close>: the cached leader record.
  Every write of the program stores the three keys together. The key \<^verbatim>\<open>'done'\<close> is
  the field \<open>hat_done\<close>.\<close>

record hat_rec =
  address :: address
  eta :: int
  hat_done :: bool

text \<open>
  A TinyDB document is a dictionary; the program only ever uses the keys
  \<^verbatim>\<open>'last_block_checked'\<close> and \<^verbatim>\<open>'hat'\<close>, so a document is a record of two
  optional entries. \<^verbatim>\<open>db.insert\<close> gives the documents the ids 1, 2, ... and the
  program never removes one, so the table is the list of its documents: document
  \<open>k\<close> is element \<open>k - 1\<close>.
\<close>

record document =
  last_block_checked :: "int option"
  hat :: "hat_rec option"

type_synonym tinydb = "document list"

datatype py_error =
  TypeError | KeyError | AttributeError | PermissionError | ConnectionError

text \<open>What the chain returns to the keeper.\<close>

record block =
  timestamp :: int

record receipt =
  successful :: bool

datatype tx = Schedule address | Cast address

text \<open>
  The external collaborators: \<^verbatim>\<open>web3\<close>, the deployment \<^verbatim>\<open>dss\<close>,
  \<^verbatim>\<open>is_contract_at\<close>, the methods of \<^verbatim>\<open>DSSSpell\<close> and the transaction
  submitter. None of them is code of these sources, so they are parameters: every call
  may raise, answers from the present state \<open>'w\<close> of the outside world and may leave
  it changed (other actors, new blocks, the keeper's own transactions).
  \<^item> \<open>blockNumber\<close>: \<^verbatim>\<open>web3.eth.blockNumber\<close>;
  \<^item> \<open>getBlock n\<close>: \<^verbatim>\<open>web3.eth.getBlock(n)\<close>, \<open>None\<close> when there is no such block;
  \<^item> \<open>get_hat\<close>: \<^verbatim>\<open>dss.ds_chief.get_hat().address\<close>;
  \<^item> \<open>spell_eta a\<close>: \<^verbatim>\<open>DSSSpell(web3, Address(a)).eta()\<close>, a datetime, given as its
    whole seconds since the epoch (UTC);
  \<^item> \<open>spell_done a\<close>: \<^verbatim>\<open>DSSSpell(web3, Address(a)).done()\<close>;
  \<^item> \<open>is_contract_at a\<close>: \<^verbatim>\<open>is_contract_at(web3, Address(a))\<close>;
  \<^item> \<open>transact t\<close>: \<^verbatim>\<open>spell.schedule().transact(gas_price=...)\<close> or
    \<^verbatim>\<open>spell.cast().transact(gas_price=...)\<close>, returning a receipt or \<open>None\<close>.
\<close>

record 'w chain_view =
  blockNumber :: "'w \<Rightarrow> (py_error + int) \<times> 'w"
  getBlock :: "int \<Rightarrow> 'w \<Rightarrow> (py_error + block option) \<times> 'w"
  get_hat :: "'w \<Rightarrow> (py_error + address) \<times> 'w"
  spell_eta :: "address \<Rightarrow> 'w \<Rightarrow> (py_error + int) \<times> 'w"
  spell_done :: "address \<Rightarrow> 'w \<Rightarrow> (py_error + bool) \<times> 'w"
  is_contract_at :: "address \<Rightarrow> 'w \<Rightarrow> (py_error + bool) \<times> 'w"
  transact :: "tx \<Rightarrow> 'w \<Rightarrow> (py_error + receipt option) \<times> 'w"

text \<open>
  What \<^verbatim>\<open>SimpleDatabase.create\<close> sees of the file \<^verbatim>\<open>db_<network>.json\<close>:
  the answers of \<^verbatim>\<open>os.path.isfile\<close> and \<^verbatim>\<open>os.access(filepath, os.R_OK)\<close>, and
  what the library call \<^verbatim>\<open>TinyDB(filepath)\<close> gives: the table of the documents
  already in the file (none for a new file), or the exception it raises.
\<close>

record backing_file =
  isfile :: bool
  access_R_OK :: bool
  TinyDB :: "py_error + tinydb"

datatype level = INFO | WARNING

text \<open>The messages of the keeper's logger, each with the values its f-string formats.\<close>

datatype log_msg =
    Message string
  | Checking_hat int
  | Not_a_contract hat_rec
  | Already_scheduled hat_rec int
  | Scheduling_hat hat_rec
  | Block_is_None int
  | Checking_scheduled int
  | Casting_spell address

text \<open>
  The keeper object: the world behind \<^verbatim>\<open>self.web3\<close> (shared with the database
  object), the TinyDB handle \<^verbatim>\<open>self.database.db\<close> (\<open>None\<close> until \<open>create\<close> has
  opened it), the error budget, whether \<^verbatim>\<open>lifecycle.terminate()\<close> was called, the
  transactions submitted so far and the log written so far.
\<close>

record 'w keeper =
  web3 :: 'w
  db :: "tinydb option"
  errors :: int
  max_errors :: int
  terminated :: bool
  sent :: "tx list"
  logged :: "(level \<times> log_msg) list"

section \<open>Statements, exceptions and calls\<close>

text \<open>
  A method runs on the keeper and either returns a value or raises; the keeper it
  leaves behind is kept in both cases, since what was written before an exception
  stays written.
\<close>

type_synonym ('a, 'w) action = "'w keeper \<Rightarrow> (py_error + 'a) \<times> 'w keeper"

definition returns :: "'a \<Rightarrow> ('a, 'w) action" where
  "returns x s = (Inr x, s)"

definition raise :: "py_error \<Rightarrow> ('a, 'w) action" where
  "raise e s = (Inl e, s)"

definition and_then :: "('a, 'w) action \<Rightarrow> ('a \<Rightarrow> ('b, 'w) action) \<Rightarrow> ('b, 'w) action" where
  "and_then m f s = (case m s of (Inl e, s') \<Rightarrow> (Inl e, s') | (Inr x, s') \<Rightarrow> f x s')"

definition call :: "('w \<Rightarrow> (py_error + 'a) \<times> 'w) \<Rightarrow> ('a, 'w) action" where
  "call q s = (case q (web3 s) of (r, w) \<Rightarrow> (r, s\<lparr>web3 := w\<rparr>))"

definition logger :: "level \<Rightarrow> log_msg \<Rightarrow> (unit, 'w) action" where
  "logger l m s = (Inr (), s\<lparr>logged := logged s @ [(l, m)]\<rparr>)"

text \<open>\<^verbatim>\<open>transact\<close> hands the transaction to the submitter: it counts as submitted
  whatever comes back.\<close>

definition submit :: "'w chain_view \<Rightarrow> tx \<Rightarrow> (receipt option, 'w) action" where
  "submit cv t s = call (transact cv t) (s\<lparr>sent := sent s @ [t]\<rparr>)"

subsection \<open>TinyDB\<close>

definition tinydb_insert :: "document \<Rightarrow> tinydb \<Rightarrow> tinydb" where
  "tinydb_insert d table = table @ [d]"

definition tinydb_get :: "tinydb \<Rightarrow> nat \<Rightarrow> document option" where
  "tinydb_get table doc_id =
     (if 1 \<le> doc_id \<and> doc_id \<le> length table then Some (table ! (doc_id - 1)) else None)"

text \<open>\<^verbatim>\<open>db.update(fields, doc_ids=[k])\<close> merges the fields \<open>upd\<close> into document \<open>k\<close> and
  raises \<^verbatim>\<open>KeyError\<close> when the table has no such document.\<close>

definition tinydb_update :: "(document \<Rightarrow> document) \<Rightarrow> nat \<Rightarrow> tinydb \<Rightarrow> py_error + tinydb" where
  "tinydb_update upd doc_id table =
     (case tinydb_get table doc_id of
        None \<Rightarrow> Inl KeyError
      | Some d \<Rightarrow> Inr (table[doc_id - 1 := upd d]))"

text \<open>\<^verbatim>\<open>self.db.get(doc_id=2)["hat"]\<close>: subscripting \<open>None\<close> is a \<^verbatim>\<open>TypeError\<close>,
  a document without the key a \<^verbatim>\<open>KeyError\<close>.\<close>

definition hat_doc :: "tinydb option \<Rightarrow> py_error + hat_rec" where
  "hat_doc h =
     (case h of
        None \<Rightarrow> Inl AttributeError
      | Some table \<Rightarrow>
          (case tinydb_get table 2 of
             None \<Rightarrow> Inl TypeError
           | Some d \<Rightarrow> (case hat d of None \<Rightarrow> Inl KeyError | Some x \<Rightarrow> Inr x)))"

definition get_hat_doc :: "(hat_rec, 'w) action" where
  "get_hat_doc s = (hat_doc (db s), s)"

definition update_doc :: "(document \<Rightarrow> document) \<Rightarrow> nat \<Rightarrow> (unit, 'w) action" where
  "update_doc upd doc_id s =
     (case db s of
        None \<Rightarrow> (Inl AttributeError, s)
      | Some table \<Rightarrow>
          (case tinydb_update upd doc_id table of
             Inl e \<Rightarrow> (Inl e, s)
           | Inr table' \<Rightarrow> (Inr (), s\<lparr>db := Some table'\<rparr>)))"

section \<open>\<^verbatim>\<open>database.py\<close>\<close>

text \<open>\<^verbatim>\<open>get_eta_in_unix(spell)\<close>: the spell's eta, read as UTC, in unix seconds.\<close>

definition get_eta_in_unix :: "'w chain_view \<Rightarrow> spell \<Rightarrow> (int, 'w) action" where
  "get_eta_in_unix cv sp = call (spell_eta cv (spell_address sp))"

text \<open>\<^verbatim>\<open>self.db = TinyDB(filepath)\<close>, once the library has opened the file, and
  \<^verbatim>\<open>self.db.insert(d)\<close>.\<close>

definition open_db :: "tinydb \<Rightarrow> (unit, 'w) action" where
  "open_db table s = (Inr (), s\<lparr>db := Some table\<rparr>)"

definition insert_doc :: "document \<Rightarrow> (unit, 'w) action" where
  "insert_doc d s =
     (case db s of
        None \<Rightarrow> (Inl AttributeError, s)
      | Some table \<Rightarrow> (Inr (), s\<lparr>db := Some (tinydb_insert d table)\<rparr>))"

text \<open>
  \<^verbatim>\<open>SimpleDatabase.create\<close>. A file that is there and readable is opened as it is.
  Otherwise (``Either file is missing or is not readable'') the file is opened all the
  same and two documents are inserted: the current block number, and the current hat with
  its eta and done flag, or eta 0 and done \<open>True\<close> for the zero address. (The
  \<^verbatim>\<open>print\<close> of the seeded hat goes to standard output and is left out.)
\<close>

definition create :: "'w chain_view \<Rightarrow> backing_file \<Rightarrow> (string, 'w) action" where
  "create cv f =
     (if isfile f \<and> access_R_OK f then
        (case TinyDB f of
           Inl e \<Rightarrow> raise e
         | Inr table \<Rightarrow>
             and_then (open_db table) (\<lambda>_.
             returns ''Simple database exists and is readable''))
      else
        (case TinyDB f of
           Inl e \<Rightarrow> raise e
         | Inr table \<Rightarrow>
             and_then (open_db table) (\<lambda>_.
             and_then (call (blockNumber cv)) (\<lambda>block_number.
             and_then (insert_doc \<lparr>last_block_checked = Some block_number, hat = None\<rparr>) (\<lambda>_.
             and_then (call (get_hat cv)) (\<lambda>h.
             and_then
               (if h \<noteq> zero_address then
                  and_then (get_eta_in_unix cv (DSSSpell h)) (\<lambda>e.
                  and_then (call (spell_done cv h)) (\<lambda>d. returns (e, d)))
                else returns (0, True)) (\<lambda>(e, d).
             and_then (insert_doc \<lparr>last_block_checked = None,
                 hat = Some \<lparr>address = h, eta = e, hat_done = d\<rparr>\<rparr>) (\<lambda>_.
             returns ''Either file is missing or is not readable, creating simple database''))))))))"

text \<open>\<^verbatim>\<open>SimpleDatabase.update_db_hat\<close>.\<close>

definition update_db_hat :: "'w chain_view \<Rightarrow> int \<Rightarrow> (unit, 'w) action" where
  "update_db_hat cv current_block_number =
     and_then (call (get_hat cv)) (\<lambda>current_hat.
     and_then get_hat_doc (\<lambda>old_hat.
     and_then
       (if address old_hat \<noteq> current_hat then
          and_then (get_eta_in_unix cv (DSSSpell current_hat)) (\<lambda>e.
          and_then (call (spell_done cv current_hat)) (\<lambda>d.
          update_doc (\<lambda>doc. doc\<lparr>hat := Some \<lparr>address = current_hat, eta = e, hat_done = d\<rparr>\<rparr>) 2))
        else returns ()) (\<lambda>_.
     update_doc (\<lambda>doc. doc\<lparr>last_block_checked := Some current_block_number\<rparr>) 1)))"

text \<open>\<^verbatim>\<open>SimpleDatabase.update_db_hat_eat\<close> and \<^verbatim>\<open>update_db_hat_done\<close>.\<close>

definition update_db_hat_eat :: "int \<Rightarrow> (unit, 'w) action" where
  "update_db_hat_eat e =
     and_then get_hat_doc (\<lambda>h.
     update_doc (\<lambda>doc. doc\<lparr>hat := Some (h\<lparr>eta := e\<rparr>)\<rparr>) 2)"

definition update_db_hat_done :: "bool \<Rightarrow> (unit, 'w) action" where
  "update_db_hat_done d =
     and_then get_hat_doc (\<lambda>h.
     update_doc (\<lambda>doc. doc\<lparr>hat := Some (h\<lparr>hat_done := d\<rparr>)\<rparr>) 2)"

section \<open>\<^verbatim>\<open>chief_keeper.py\<close>\<close>

text \<open>\<^verbatim>\<open>self.database = SimpleDatabase(...)\<close>: the keeper gets a new database
  object, whose \<^verbatim>\<open>db\<close> is \<open>None\<close> until \<open>create\<close> opens it.\<close>

definition new_database :: "(unit, 'w) action" where
  "new_database s = (Inr (), s\<lparr>db := None\<rparr>)"

text \<open>\<^verbatim>\<open>ChiefKeeper.initial_query\<close>: a new database object is made, the database is
  created and the result logged.\<close>

definition initial_query :: "'w chain_view \<Rightarrow> backing_file \<Rightarrow> (unit, 'w) action" where
  "initial_query cv f =
     and_then (logger INFO (Message '''')) (\<lambda>_.
     and_then (logger INFO (Message
       ''Querying DS-Chief state since last update ( !! Could take up to 15 minutes !! )'')) (\<lambda>_.
     and_then new_database (\<lambda>_.
     and_then (create cv f) (\<lambda>result.
     logger INFO (Message result)))))"

text \<open>
  \<^verbatim>\<open>ChiefKeeper.check_hat\<close>, in two parts so that the keeper in between can be
  spoken of: \<open>check_hat\<close> is the whole method, and \<open>check_hat_tail\<close> is what it
  does after \<^verbatim>\<open>self.database.update_db_hat(block_number)\<close>, from the reading of
  the cached hat to the end.
\<close>

definition check_hat_tail :: "'w chain_view \<Rightarrow> (unit, 'w) action" where
  "check_hat_tail cv =
     and_then get_hat_doc (\<lambda>h.
       if address h = zero_address \<or> hat_done h then returns ()
       else
         and_then (call (is_contract_at cv (address h))) (\<lambda>is_contract.
           if \<not> is_contract then logger INFO (Not_a_contract h)
           else if hat_done h = False \<and> eta h = 0 then
             and_then (get_eta_in_unix cv (DSSSpell (address h))) (\<lambda>spell_eta1.
               if spell_eta1 > 0 then
                 and_then (logger INFO (Already_scheduled h spell_eta1)) (\<lambda>_.
                 update_db_hat_eat spell_eta1)
               else
                 and_then (logger INFO (Scheduling_hat h)) (\<lambda>_.
                 and_then (submit cv (Schedule (address h))) (\<lambda>_.
                 and_then (get_eta_in_unix cv (DSSSpell (address h))) (\<lambda>spell_eta2.
                   if spell_eta2 > 0 then update_db_hat_eat spell_eta2 else returns ()))))
           else returns ()))"

definition check_hat :: "'w chain_view \<Rightarrow> (unit, 'w) action" where
  "check_hat cv =
     and_then (call (blockNumber cv)) (\<lambda>block_number.
     and_then (logger INFO (Checking_hat block_number)) (\<lambda>_.
     and_then (update_db_hat cv block_number) (\<lambda>_.
     check_hat_tail cv)))"

text \<open>
  \<^verbatim>\<open>ChiefKeeper.check_eta\<close>. Where the address has no code, \<open>spell\<close> is \<open>None\<close>
  and formatting \<^verbatim>\<open>spell.address.address\<close> for the log raises \<^verbatim>\<open>AttributeError\<close>.
\<close>

definition check_eta :: "'w chain_view \<Rightarrow> (unit, 'w) action" where
  "check_eta cv =
     and_then get_hat_doc (\<lambda>h.
       if address h = zero_address \<or> hat_done h \<or> eta h = 0 then returns ()
       else
         and_then (call (blockNumber cv)) (\<lambda>block_number.
         and_then (call (getBlock cv block_number)) (\<lambda>blk.
           case blk of
             None \<Rightarrow> logger WARNING (Block_is_None block_number)
           | Some b \<Rightarrow>
               and_then (logger INFO (Checking_scheduled block_number)) (\<lambda>_.
                 if timestamp b < eta h then returns ()
                 else
                   and_then (call (is_contract_at cv (address h))) (\<lambda>is_contract.
                     case (if is_contract then Some (DSSSpell (address h)) else None) of
                       None \<Rightarrow> raise AttributeError
                     | Some sp \<Rightarrow>
                         and_then (logger INFO (Casting_spell (spell_address sp))) (\<lambda>_.
                         and_then (submit cv (Cast (spell_address sp))) (\<lambda>r.
                           if r = None \<or> map_option successful r = Some True
                           then update_db_hat_done True
                           else returns ())))))))"

text \<open>\<^verbatim>\<open>ChiefKeeper.process_block\<close>, the callback of every new block.\<close>

definition process_block :: "'w chain_view \<Rightarrow> (unit, 'w) action" where
  "process_block cv s =
     (if errors s \<ge> max_errors s then (Inr (), s\<lparr>terminated := True\<rparr>)
      else and_then (check_hat cv) (\<lambda>_. check_eta cv) s)"

section \<open>What is said about the keeper\<close>

text \<open>
  The invariant of a cached leader record: a leader other than the null-address that is
  not scheduled (eta 0) is not done. \<open>cache_ok\<close> says it of the record a keeper has
  cached, if it has one.
\<close>

definition leader_inv :: "hat_rec \<Rightarrow> bool" where
  "leader_inv h = (address h \<noteq> zero_address \<and> eta h = 0 \<longrightarrow> \<not> hat_done h)"

definition cache_ok :: "'w keeper \<Rightarrow> bool" where
  "cache_ok s = (case hat_doc (db s) of Inl _ \<Rightarrow> True | Inr h \<Rightarrow> leader_inv h)"

text \<open>An assumption on the chain: an action whose eta reads 0 is not then reported
  done.\<close>

definition done_only_when_scheduled :: "'w chain_view \<Rightarrow> bool" where
  "done_only_when_scheduled cv =
     (\<forall>a w e w' d w''.
        spell_eta cv a w = (Inr e, w') \<and> spell_done cv a w' = (Inr d, w'') \<and> e = 0 \<longrightarrow> \<not> d)"

text \<open>\<open>ensures Q m P\<close>: run from a keeper that satisfies \<open>Q\<close>, the method \<open>m\<close>
  leaves a keeper that satisfies \<open>P\<close>, whether it returns or raises.\<close>

definition ensures ::
  "('w keeper \<Rightarrow> bool) \<Rightarrow> ('a, 'w) action \<Rightarrow> ('w keeper \<Rightarrow> bool) \<Rightarrow> bool" where
  "ensures Q m P = (\<forall>s. Q s \<longrightarrow> P (snd (m s)))"

section \<open>A chain and a keeper to run the methods on\<close>

text \<open>A chain that gives the same answers whenever it is asked: the block number, the
  block, the hat, a spell's eta and done flag, whether an address has code, and the
  receipt of a transaction.\<close>

definition answering ::
  "int \<Rightarrow> block option \<Rightarrow> address \<Rightarrow> int \<Rightarrow> bool \<Rightarrow> bool \<Rightarrow> receipt option \<Rightarrow> unit chain_view" where
  "answering n b a e d c r =
     \<lparr>blockNumber = (\<lambda>w. (Inr n, w)),
      getBlock = (\<lambda>_ w. (Inr b, w)),
      get_hat = (\<lambda>w. (Inr a, w)),
      spell_eta = (\<lambda>_ w. (Inr e, w)),
      spell_done = (\<lambda>_ w. (Inr d, w)),
      is_contract_at = (\<lambda>_ w. (Inr c, w)),
      transact = (\<lambda>_ w. (Inr r, w))\<rparr>"

text \<open>A keeper after startup: block 0 was the last one checked, the given leader record
  is cached, no error was counted and at most 100 are allowed.\<close>

definition keeper_caching :: "hat_rec \<Rightarrow> unit keeper" where
  "keeper_caching h =
     \<lparr>web3 = (),
      db = Some [\<lparr>last_block_checked = Some 0, hat = None\<rparr>,
                 \<lparr>last_block_checked = None, hat = Some h\<rparr>],
      errors = 0, max_errors = 100, terminated = False, sent = [], logged = []\<rparr>"

text \<open>A keeper before startup: the database is not opened yet.\<close>

definition keeper_starting :: "unit keeper" where
  "keeper_starting =
     \<lparr>web3 = (), db = None, errors = 0, max_errors = 100, terminated = False,
      sent = [], logged = []\<rparr>"

section \<open>Running one statement after another\<close>

lemma and_then_returns [simp]: "and_then (returns x) f = f x"
  by (rule ext) (simp add: and_then_def returns_def)

lemma and_then_raise [simp]: "and_then (raise e) f = raise e"
  by (rule ext) (simp add: and_then_def raise_def)

lemma and_then_logger [simp]:
  "and_then (logger l m) f s = f () (s\<lparr>logged := logged s @ [(l, m)]\<rparr>)"
  by (simp add: and_then_def logger_def)

lemma and_then_call:
  "q (web3 s) = (Inr x, w) \<Longrightarrow> and_then (call q) f s = f x (s\<lparr>web3 := w\<rparr>)"
  by (simp add: and_then_def call_def)

lemma and_then_get_hat_doc:
  "hat_doc (db s) = Inr h \<Longrightarrow> and_then get_hat_doc f s = f h s"
  by (simp add: and_then_def get_hat_doc_def)

text \<open>A part \<open>g\<close> of the keeper that neither of two statements changes is not changed
  by running one after the other, whether or not an exception ends the run.\<close>

lemma and_then_keeps:
  assumes "\<And>s. g (snd (m s)) = g s" and "\<And>x s. g (snd (f x s)) = g s"
  shows "g (snd (and_then m f s)) = g s"
proof (cases "m s")
  case (Pair r s')
  then have "g s' = g s" using assms(1) [of s] by simp
  then show ?thesis using Pair assms(2) by (cases r) (simp_all add: and_then_def)
qed

section \<open>The cached leader record\<close>

lemma hat_doc_Inr:
  "hat_doc d = Inr h \<longleftrightarrow>
     (\<exists>table. d = Some table \<and> 2 \<le> length table \<and> hat (table ! 1) = Some h)"
  by (auto simp: hat_doc_def tinydb_get_def split: option.splits)

lemma update_doc_hat:
  assumes "hat_doc (db s) = Inr h"
  shows "\<exists>s'. update_doc (\<lambda>doc. doc\<lparr>hat := Some h'\<rparr>) 2 s = (Inr (), s')
     \<and> hat_doc (db s') = Inr h' \<and> sent s' = sent s \<and> web3 s' = web3 s \<and> logged s' = logged s"
  using assms
  by (auto simp: hat_doc_Inr update_doc_def tinydb_update_def tinydb_get_def numeral_2_eq_2)

lemma update_db_hat_eat_hat:
  assumes "hat_doc (db s) = Inr h"
  shows "fst (update_db_hat_eat e s) = Inr ()"
    and "hat_doc (db (snd (update_db_hat_eat e s))) = Inr (h\<lparr>eta := e\<rparr>)"
    and "sent (snd (update_db_hat_eat e s)) = sent s"
  using update_doc_hat [OF assms, of "h\<lparr>eta := e\<rparr>"] assms
  by (auto simp: update_db_hat_eat_def and_then_get_hat_doc)

lemma update_doc_sent: "sent (snd (update_doc u k s)) = sent s"
  by (simp add: update_doc_def split: option.splits sum.splits)

lemma call_sent: "sent (snd (call q s)) = sent s"
  by (simp add: call_def split: prod.splits)

lemma update_db_hat_sent: "sent (snd (update_db_hat cv n s)) = sent s"
  unfolding update_db_hat_def get_eta_in_unix_def
  by (intro and_then_keeps)
    (simp_all add: call_sent update_doc_sent get_hat_doc_def returns_def and_then_keeps)

lemma update_db_hat_done_hat:
  assumes "hat_doc (db s) = Inr h"
  shows "fst (update_db_hat_done d s) = Inr ()"
    and "hat_doc (db (snd (update_db_hat_done d s))) = Inr (h\<lparr>hat_done := d\<rparr>)"
    and "sent (snd (update_db_hat_done d s)) = sent s"
  using update_doc_hat [OF assms, of "h\<lparr>hat_done := d\<rparr>"] assms
  by (auto simp: update_db_hat_done_def and_then_get_hat_doc)

lemma update_db_hat_done_sent: "sent (snd (update_db_hat_done d s)) = sent s"
  unfolding update_db_hat_done_def
  by (intro and_then_keeps) (simp_all add: update_doc_sent get_hat_doc_def)

lemma and_then_submit:
  "transact cv t (web3 s) = (Inr r, w) \<Longrightarrow>
   and_then (submit cv t) f s = f r (s\<lparr>sent := sent s @ [t], web3 := w\<rparr>)"
  by (simp add: and_then_def submit_def call_def)

lemma submit_sent: "sent (snd (submit cv t s)) = sent s @ [t]"
  by (simp add: submit_def call_def split: prod.splits)

subsection \<open>The error counter is never written\<close>

lemma update_doc_errors: "errors (snd (update_doc u k s)) = errors s"
  by (simp add: update_doc_def split: option.splits sum.splits)

lemma call_errors: "errors (snd (call q s)) = errors s"
  by (simp add: call_def split: prod.splits)

lemma submit_errors: "errors (snd (submit cv t s)) = errors s"
  by (simp add: submit_def call_def split: prod.splits)

lemma update_db_hat_errors: "errors (snd (update_db_hat cv n s)) = errors s"
  unfolding update_db_hat_def get_eta_in_unix_def
  by (intro and_then_keeps)
    (simp_all add: call_errors update_doc_errors get_hat_doc_def returns_def and_then_keeps)

lemma update_db_hat_eat_errors: "errors (snd (update_db_hat_eat e s)) = errors s"
  unfolding update_db_hat_eat_def
  by (intro and_then_keeps) (simp_all add: update_doc_errors get_hat_doc_def)

lemma update_db_hat_done_errors: "errors (snd (update_db_hat_done e s)) = errors s"
  unfolding update_db_hat_done_def
  by (intro and_then_keeps) (simp_all add: update_doc_errors get_hat_doc_def)

lemma check_hat_errors: "errors (snd (check_hat cv s)) = errors s"
  unfolding check_hat_def check_hat_tail_def get_eta_in_unix_def
  by (intro and_then_keeps)
    (simp_all add: call_errors update_db_hat_errors update_db_hat_eat_errors submit_errors
      get_hat_doc_def returns_def logger_def and_then_keeps)

lemma check_eta_errors: "errors (snd (check_eta cv s)) = errors s"
  unfolding check_eta_def
  by (intro and_then_keeps)
    (simp_all add: call_errors update_db_hat_done_errors submit_errors
      get_hat_doc_def returns_def raise_def logger_def and_then_keeps split: option.splits)

lemma process_block_errors: "errors (snd (process_block cv s)) = errors s"
  by (simp add: process_block_def and_then_keeps check_hat_errors check_eta_errors)

section \<open>Hat Monitor\<close>

text \<open>
  Claim C1. Hat Monitor has brought the cache up to date (\<open>update_db_hat\<close> returned)
  and the cached leader \<open>h\<close> is not the null-address, is not done, has eta 0 and has
  code. If the chain, asked again for the eta of the leader's action, reports a nonzero
  eta \<open>E\<close> (a unix time, so not negative), then \<open>check_hat\<close> ends in the partial
  eta update \<open>update_db_hat_eat E\<close>: it returns, the cached record is \<open>h\<close> with
  eta \<open>E\<close>, and no transaction was submitted.
\<close>

theorem check_hat_adopts_eta:
  assumes "blockNumber cv (web3 s) = (Inr n, w1)"
    and "update_db_hat cv n (s\<lparr>web3 := w1, logged := logged s @ [(INFO, Checking_hat n)]\<rparr>)
           = (Inr (), s2)"
    and "hat_doc (db s2) = Inr h"
    and "address h \<noteq> zero_address" and "\<not> hat_done h" and "eta h = 0"
    and "is_contract_at cv (address h) (web3 s2) = (Inr True, w3)"
    and "spell_eta cv (address h) w3 = (Inr E, w4)" and "E \<noteq> 0" and "0 \<le> E"
  shows "check_hat cv s =
           update_db_hat_eat E
             (s2\<lparr>web3 := w4, logged := logged s2 @ [(INFO, Already_scheduled h E)]\<rparr>)
         \<and> fst (check_hat cv s) = Inr ()
         \<and> hat_doc (db (snd (check_hat cv s))) = Inr (h\<lparr>eta := E\<rparr>)
         \<and> sent (snd (check_hat cv s)) = sent s"
proof -
  let ?s1 = "s\<lparr>web3 := w1, logged := logged s @ [(INFO, Checking_hat n)]\<rparr>"
  let ?s3 = "s2\<lparr>web3 := w4, logged := logged s2 @ [(INFO, Already_scheduled h E)]\<rparr>"
  have run: "check_hat cv s = update_db_hat_eat E ?s3"
    using assms
    by (simp add: check_hat_def check_hat_tail_def and_then_call and_then_get_hat_doc
        get_eta_in_unix_def and_then_def [of "update_db_hat cv n"])
  have h3: "hat_doc (db ?s3) = Inr h"
    using assms(3) by simp
  have "sent s2 = sent s"
    using update_db_hat_sent [of cv n ?s1] assms(2) by simp
  then show ?thesis
    using run update_db_hat_eat_hat [OF h3, of E] by simp
qed

theorem check_hat_adopts_eta_witness:
  "fst (check_hat (answering 7 None ''0xA1'' 500 False True None)
          (keeper_caching \<lparr>address = ''0xA1'', eta = 0, hat_done = False\<rparr>)) = Inr ()
   \<and> hat_doc (db (snd (check_hat (answering 7 None ''0xA1'' 500 False True None)
          (keeper_caching \<lparr>address = ''0xA1'', eta = 0, hat_done = False\<rparr>))))
       = Inr \<lparr>address = ''0xA1'', eta = 500, hat_done = False\<rparr>
   \<and> sent (snd (check_hat (answering 7 None ''0xA1'' 500 False True None)
          (keeper_caching \<lparr>address = ''0xA1'', eta = 0, hat_done = False\<rparr>))) = []"
proof -
  let ?cv = "answering 7 None ''0xA1'' 500 False True None"
  let ?h = "\<lparr>address = ''0xA1'', eta = 0, hat_done = False\<rparr>"
  let ?s = "keeper_caching ?h"
  let ?s2 = "?s\<lparr>db := Some [\<lparr>last_block_checked = Some 7, hat = None\<rparr>,
                            \<lparr>last_block_checked = None, hat = Some ?h\<rparr>],
                logged := [(INFO, Checking_hat 7)]\<rparr>"
  have a1: "blockNumber ?cv (web3 ?s) = (Inr 7, ())"
    by (simp add: answering_def)
  have a2: "update_db_hat ?cv 7 (?s\<lparr>web3 := (), logged := logged ?s @ [(INFO, Checking_hat 7)]\<rparr>)
              = (Inr (), ?s2)"
    by (simp add: update_db_hat_def answering_def keeper_caching_def and_then_def call_def
        get_hat_doc_def hat_doc_def tinydb_get_def update_doc_def tinydb_update_def returns_def)
  have a3: "hat_doc (db ?s2) = Inr ?h"
    by (simp add: hat_doc_def tinydb_get_def)
  have a4: "address ?h \<noteq> zero_address"
    by (simp add: zero_address_def)
  have a7: "is_contract_at ?cv (address ?h) (web3 ?s2) = (Inr True, ())"
    by (simp add: answering_def)
  have a8: "spell_eta ?cv (address ?h) () = (Inr 500, ())"
    by (simp add: answering_def)
  show ?thesis
    using check_hat_adopts_eta [OF a1 a2 a3 a4 _ _ a7 a8, THEN conjunct2]
    by (simp add: keeper_caching_def)
qed

section \<open>Eta Monitor\<close>

text \<open>
  Claim C10. The cached leader passes the guards of \<open>check_eta\<close> (it is not the
  null-address, not done, and has a nonzero eta) and the chain has no block for the current
  block number. Then \<open>check_eta\<close> returns, and all it leaves behind is the warning in
  the log: no transaction is submitted and the cache is as it was.
\<close>

theorem check_eta_block_None:
  assumes "hat_doc (db s) = Inr h"
    and "address h \<noteq> zero_address" and "\<not> hat_done h" and "eta h \<noteq> 0"
    and "blockNumber cv (web3 s) = (Inr n, w1)"
    and "getBlock cv n w1 = (Inr None, w2)"
  shows "check_eta cv s =
           (Inr (), s\<lparr>web3 := w2, logged := logged s @ [(WARNING, Block_is_None n)]\<rparr>)"
  using assms
  by (simp add: check_eta_def and_then_get_hat_doc and_then_call logger_def)

theorem check_eta_block_None_witness:
  "check_eta (answering 7 None ''0xA1'' 100 False True None)
     (keeper_caching \<lparr>address = ''0xA1'', eta = 100, hat_done = False\<rparr>)
   = (Inr (), (keeper_caching \<lparr>address = ''0xA1'', eta = 100, hat_done = False\<rparr>)
        \<lparr>logged := [(WARNING, Block_is_None 7)]\<rparr>)"
proof -
  let ?cv = "answering 7 None ''0xA1'' 100 False True None"
  let ?h = "\<lparr>address = ''0xA1'', eta = 100, hat_done = False\<rparr>"
  have a1: "hat_doc (db (keeper_caching ?h)) = Inr ?h"
    by (simp add: keeper_caching_def hat_doc_def tinydb_get_def)
  have a2: "address ?h \<noteq> zero_address"
    by (simp add: zero_address_def)
  have a5: "blockNumber ?cv (web3 (keeper_caching ?h)) = (Inr 7, ())"
    by (simp add: answering_def)
  have a6: "getBlock ?cv 7 () = (Inr None, ())"
    by (simp add: answering_def)
  show ?thesis
    using check_eta_block_None [OF a1 a2 _ _ a5 a6] by (simp add: keeper_caching_def)
qed

subsection \<open>Casting\<close>

lemma check_eta_due:
  assumes "hat_doc (db s) = Inr h"
    and "address h \<noteq> zero_address" and "\<not> hat_done h" and "eta h \<noteq> 0"
    and "blockNumber cv (web3 s) = (Inr n, w1)"
    and "getBlock cv n w1 = (Inr (Some b), w2)"
    and "eta h \<le> timestamp b"
    and "is_contract_at cv (address h) w2 = (Inr True, w3)"
  shows "check_eta cv s =
     and_then (submit cv (Cast (address h)))
       (\<lambda>r. if r = None \<or> map_option successful r = Some True
            then update_db_hat_done True else returns ())
       (s\<lparr>web3 := w3, logged := logged s @
          [(INFO, Checking_scheduled n), (INFO, Casting_spell (address h))]\<rparr>)"
  using assms
  by (simp add: check_eta_def and_then_get_hat_doc and_then_call)

lemma check_eta_not_due:
  assumes "hat_doc (db s) = Inr h"
    and "address h \<noteq> zero_address" and "\<not> hat_done h" and "eta h \<noteq> 0"
    and "blockNumber cv (web3 s) = (Inr n, w1)"
    and "getBlock cv n w1 = (Inr (Some b), w2)"
    and "timestamp b < eta h"
  shows "check_eta cv s =
     (Inr (), s\<lparr>web3 := w2, logged := logged s @ [(INFO, Checking_scheduled n)]\<rparr>)"
  using assms
  by (simp add: check_eta_def and_then_get_hat_doc and_then_call returns_def)

text \<open>
  Claim C3. The cached leader \<open>h\<close> passes the guards, its eta has come by the block's
  timestamp, its address has code, and the cast comes back with \<open>r\<close>, a receipt or
  \<open>None\<close>. Then \<open>check_eta\<close> returns, one cast was submitted, and the cached record
  is \<open>h\<close> with the done flag true if and only if \<open>r\<close> is \<open>None\<close> or a successful
  receipt: after a failed receipt the record is \<open>h\<close> as it was, done still false.
\<close>

theorem check_eta_done_iff_receipt:
  assumes "hat_doc (db s) = Inr h"
    and "address h \<noteq> zero_address" and "\<not> hat_done h" and "eta h \<noteq> 0"
    and "blockNumber cv (web3 s) = (Inr n, w1)"
    and "getBlock cv n w1 = (Inr (Some b), w2)"
    and "eta h \<le> timestamp b"
    and "is_contract_at cv (address h) w2 = (Inr True, w3)"
    and "transact cv (Cast (address h)) w3 = (Inr r, w4)"
  shows "fst (check_eta cv s) = Inr ()
     \<and> hat_doc (db (snd (check_eta cv s)))
         = Inr (h\<lparr>hat_done := (case r of None \<Rightarrow> True | Some rc \<Rightarrow> successful rc)\<rparr>)
     \<and> sent (snd (check_eta cv s)) = sent s @ [Cast (address h)]"
proof -
  let ?s3 = "s\<lparr>web3 := w3, logged := logged s @
               [(INFO, Checking_scheduled n), (INFO, Casting_spell (address h))]\<rparr>"
  let ?s4 = "?s3\<lparr>sent := sent ?s3 @ [Cast (address h)], web3 := w4\<rparr>"
  have h4: "hat_doc (db ?s4) = Inr h"
    using assms(1) by simp
  have run: "check_eta cv s =
      (if r = None \<or> map_option successful r = Some True
       then update_db_hat_done True else returns ()) ?s4"
    using check_eta_due [OF assms(1-8)] assms(9) by (simp add: and_then_submit)
  have same: "h\<lparr>hat_done := False\<rparr> = h"
    using assms(3) by simp
  show ?thesis
  proof (cases r)
    case None
    then show ?thesis
      using run update_db_hat_done_hat [OF h4, of True] by simp
  next
    case (Some rc)
    show ?thesis
    proof (cases "successful rc")
      case True
      then show ?thesis
        using Some run update_db_hat_done_hat [OF h4, of True] by simp
    next
      case False
      then show ?thesis
        using Some run assms(1) same by (simp add: returns_def)
    qed
  qed
qed

theorem check_eta_done_iff_receipt_witness:
  "hat_doc (db (snd (check_eta
       (answering 7 (Some \<lparr>timestamp = 100\<rparr>) ''0xA1'' 100 False True
          (Some \<lparr>successful = False\<rparr>))
       (keeper_caching \<lparr>address = ''0xA1'', eta = 100, hat_done = False\<rparr>))))
     = Inr \<lparr>address = ''0xA1'', eta = 100, hat_done = False\<rparr>
   \<and> hat_doc (db (snd (check_eta
       (answering 7 (Some \<lparr>timestamp = 100\<rparr>) ''0xA1'' 100 False True
          (Some \<lparr>successful = True\<rparr>))
       (keeper_caching \<lparr>address = ''0xA1'', eta = 100, hat_done = False\<rparr>))))
     = Inr \<lparr>address = ''0xA1'', eta = 100, hat_done = True\<rparr>
   \<and> hat_doc (db (snd (check_eta
       (answering 7 (Some \<lparr>timestamp = 100\<rparr>) ''0xA1'' 100 False True None)
       (keeper_caching \<lparr>address = ''0xA1'', eta = 100, hat_done = False\<rparr>))))
     = Inr \<lparr>address = ''0xA1'', eta = 100, hat_done = True\<rparr>"
proof -
  let ?h = "\<lparr>address = ''0xA1'', eta = 100, hat_done = False\<rparr>"
  let ?b = "\<lparr>timestamp = 100\<rparr>"
  have a1: "hat_doc (db (keeper_caching ?h)) = Inr ?h"
    by (simp add: keeper_caching_def hat_doc_def tinydb_get_def)
  have a2: "address ?h \<noteq> zero_address"
    by (simp add: zero_address_def)
  have failed: "hat_doc (db (snd (check_eta
       (answering 7 (Some ?b) ''0xA1'' 100 False True (Some \<lparr>successful = False\<rparr>))
       (keeper_caching ?h)))) = Inr ?h"
    using check_eta_done_iff_receipt [OF a1 a2, of _ 7 "()" ?b "()" "()"
        "Some \<lparr>successful = False\<rparr>" "()"]
    by (simp add: answering_def)
  have succeeded: "hat_doc (db (snd (check_eta
       (answering 7 (Some ?b) ''0xA1'' 100 False True (Some \<lparr>successful = True\<rparr>))
       (keeper_caching ?h)))) = Inr (?h\<lparr>hat_done := True\<rparr>)"
    using check_eta_done_iff_receipt [OF a1 a2, of _ 7 "()" ?b "()" "()"
        "Some \<lparr>successful = True\<rparr>" "()"]
    by (simp add: answering_def)
  have absent: "hat_doc (db (snd (check_eta
       (answering 7 (Some ?b) ''0xA1'' 100 False True None)
       (keeper_caching ?h)))) = Inr (?h\<lparr>hat_done := True\<rparr>)"
    using check_eta_done_iff_receipt [OF a1 a2, of _ 7 "()" ?b "()" "()" None "()"]
    by (simp add: answering_def)
  show ?thesis
    using failed succeeded absent by simp
qed

text \<open>
  Claim C8. The cached leader has passed the guards with eta \<open>T\<close> (so it is not the
  null-address, is not done, and \<open>T\<close> is not 0, which would mean unscheduled), and the
  chain says its address has code. What \<open>check_eta\<close> compares with \<open>T\<close> is the
  timestamp of the block that the chain returns for the current block number; the
  keeper has no clock. On a block stamped \<open>T - 1\<close> nothing is submitted; on a block
  stamped \<open>T\<close> exactly one transaction is submitted, the cast of the leader's action.
\<close>

theorem check_eta_due_time:
  assumes "hat_doc (db s) = Inr h"
    and "address h \<noteq> zero_address" and "\<not> hat_done h" and "eta h = T" and "T \<noteq> 0"
    and "blockNumber cv (web3 s) = (Inr n, w1)"
    and "getBlock cv n w1 = (Inr (Some b), w2)"
    and "is_contract_at cv (address h) w2 = (Inr True, w3)"
  shows "(timestamp b = T - 1 \<longrightarrow> sent (snd (check_eta cv s)) = sent s)
       \<and> (timestamp b = T \<longrightarrow> sent (snd (check_eta cv s)) = sent s @ [Cast (address h)])"
proof (intro conjI impI)
  assume "timestamp b = T - 1"
  then have "timestamp b < eta h"
    using assms(4) by simp
  then show "sent (snd (check_eta cv s)) = sent s"
    using check_eta_not_due [OF assms(1-3) _ assms(6,7)] assms(4,5) by simp
next
  assume "timestamp b = T"
  then have due: "eta h \<le> timestamp b"
    using assms(4) by simp
  have nz: "eta h \<noteq> 0"
    using assms(4,5) by simp
  let ?s3 = "s\<lparr>web3 := w3, logged := logged s @
               [(INFO, Checking_scheduled n), (INFO, Casting_spell (address h))]\<rparr>"
  obtain r s4 where sub: "submit cv (Cast (address h)) ?s3 = (r, s4)"
    by (cases "submit cv (Cast (address h)) ?s3")
  then have s4: "sent s4 = sent s @ [Cast (address h)]"
    using submit_sent [of cv "Cast (address h)" ?s3] by simp
  show "sent (snd (check_eta cv s)) = sent s @ [Cast (address h)]"
    using check_eta_due [OF assms(1-3) nz assms(6,7) due assms(8)] sub s4
    by (cases r) (simp_all add: and_then_def update_db_hat_done_sent returns_def)
qed

theorem check_eta_due_time_witness:
  "sent (snd (check_eta (answering 7 (Some \<lparr>timestamp = 99\<rparr>) ''0xA1'' 100 False True None)
       (keeper_caching \<lparr>address = ''0xA1'', eta = 100, hat_done = False\<rparr>))) = []
   \<and> sent (snd (check_eta (answering 7 (Some \<lparr>timestamp = 100\<rparr>) ''0xA1'' 100 False True None)
       (keeper_caching \<lparr>address = ''0xA1'', eta = 100, hat_done = False\<rparr>))) = [Cast ''0xA1'']"
proof -
  let ?h = "\<lparr>address = ''0xA1'', eta = 100, hat_done = False\<rparr>"
  have a1: "hat_doc (db (keeper_caching ?h)) = Inr ?h"
    by (simp add: keeper_caching_def hat_doc_def tinydb_get_def)
  have a2: "address ?h \<noteq> zero_address"
    by (simp add: zero_address_def)
  have before: "sent (snd (check_eta
       (answering 7 (Some \<lparr>timestamp = 99\<rparr>) ''0xA1'' 100 False True None)
       (keeper_caching ?h))) = sent (keeper_caching ?h)"
    using check_eta_due_time [OF a1 a2, of 100 _ 7 "()" "\<lparr>timestamp = 99\<rparr>" "()" "()"]
    by (simp add: answering_def)
  have at: "sent (snd (check_eta
       (answering 7 (Some \<lparr>timestamp = 100\<rparr>) ''0xA1'' 100 False True None)
       (keeper_caching ?h))) = sent (keeper_caching ?h) @ [Cast ''0xA1'']"
    using check_eta_due_time [OF a1 a2, of 100 _ 7 "()" "\<lparr>timestamp = 100\<rparr>" "()" "()"]
    by (simp add: answering_def)
  show ?thesis
    using before at by (simp add: keeper_caching_def)
qed

subsection \<open>An address without code\<close>

text \<open>
  Claim C4, on a leader \<^verbatim>\<open>0xA1\<close> that passes the guards with eta 100, on a block
  stamped 100, where the chain says the address has no code: \<open>check_eta\<close> submits no
  transaction and leaves the cache as it was, but it does not return: it raises
  \<^verbatim>\<open>AttributeError\<close>.
\<close>

theorem check_eta_no_code_raises:
  "check_eta (answering 7 (Some \<lparr>timestamp = 100\<rparr>) ''0xA1'' 100 False False None)
     (keeper_caching \<lparr>address = ''0xA1'', eta = 100, hat_done = False\<rparr>)
   = (Inl AttributeError,
      (keeper_caching \<lparr>address = ''0xA1'', eta = 100, hat_done = False\<rparr>)
        \<lparr>logged := [(INFO, Checking_scheduled 7)]\<rparr>)"
  by (simp add: check_eta_def answering_def keeper_caching_def and_then_def call_def
      get_hat_doc_def hat_doc_def tinydb_get_def zero_address_def raise_def logger_def)

section \<open>The block loop\<close>

lemma check_hat_after_update:
  assumes "blockNumber cv (web3 s) = (Inr n, w1)"
    and "update_db_hat cv n (s\<lparr>web3 := w1, logged := logged s @ [(INFO, Checking_hat n)]\<rparr>)
           = (Inr (), s2)"
    and "hat_doc (db s2) = Inr h"
    and "address h = zero_address \<or> hat_done h"
  shows "check_hat cv s = (Inr (), s2)"
  using assms
  by (auto simp add: check_hat_def check_hat_tail_def and_then_call and_then_get_hat_doc
        returns_def and_then_def [of "update_db_hat cv n"])

lemma check_eta_guard:
  assumes "hat_doc (db s) = Inr h"
    and "address h = zero_address \<or> hat_done h \<or> eta h = 0"
  shows "check_eta cv s = (Inr (), s)"
  using assms by (auto simp add: check_eta_def and_then_get_hat_doc returns_def)

text \<open>
  Claim C7. Hat Monitor has brought the cache up to date (\<open>update_db_hat\<close> returned,
  leaving the keeper \<open>s2\<close>) and the cached leader is the null-address or is done. Then
  \<open>check_hat\<close> stops there and \<open>check_eta\<close>, run next, stops at its guard; neither
  submits a transaction, and the whole of \<open>process_block\<close> submits none.
\<close>

theorem guards_submit_nothing:
  assumes "blockNumber cv (web3 s) = (Inr n, w1)"
    and "update_db_hat cv n (s\<lparr>web3 := w1, logged := logged s @ [(INFO, Checking_hat n)]\<rparr>)
           = (Inr (), s2)"
    and "hat_doc (db s2) = Inr h"
    and "address h = zero_address \<or> hat_done h"
  shows "check_hat cv s = (Inr (), s2) \<and> check_eta cv s2 = (Inr (), s2)
       \<and> sent s2 = sent s \<and> sent (snd (process_block cv s)) = sent s"
proof -
  let ?s1 = "s\<lparr>web3 := w1, logged := logged s @ [(INFO, Checking_hat n)]\<rparr>"
  have hat: "check_hat cv s = (Inr (), s2)"
    using check_hat_after_update [OF assms] .
  have eta: "check_eta cv s2 = (Inr (), s2)"
    using check_eta_guard [of s2 h cv] assms(3,4) by blast
  have sent: "sent s2 = sent s"
    using update_db_hat_sent [of cv n ?s1] assms(2) by simp
  have "sent (snd (process_block cv s)) = sent s"
    using hat eta sent by (simp add: process_block_def and_then_def)
  then show ?thesis
    using hat eta sent by simp
qed

theorem guards_submit_nothing_witness:
  "sent (snd (process_block (answering 7 (Some \<lparr>timestamp = 100\<rparr>) ''0xA1'' 0 False True None)
       (keeper_caching \<lparr>address = ''0xA1'', eta = 50, hat_done = True\<rparr>))) = []
   \<and> sent (snd (process_block
       (answering 7 (Some \<lparr>timestamp = 100\<rparr>) zero_address 0 False True None)
       (keeper_caching \<lparr>address = zero_address, eta = 0, hat_done = True\<rparr>))) = []"
proof -
  let ?b = "Some \<lparr>timestamp = 100\<rparr>"
  let ?h = "\<lparr>address = ''0xA1'', eta = 50, hat_done = True\<rparr>"
  let ?z = "\<lparr>address = zero_address, eta = 0, hat_done = True\<rparr>"
  have "update_db_hat (answering 7 ?b ''0xA1'' 0 False True None) 7
          ((keeper_caching ?h)\<lparr>web3 := (),
             logged := logged (keeper_caching ?h) @ [(INFO, Checking_hat 7)]\<rparr>)
        = (Inr (), (keeper_caching ?h)\<lparr>db := Some [\<lparr>last_block_checked = Some 7, hat = None\<rparr>,
                            \<lparr>last_block_checked = None, hat = Some ?h\<rparr>],
                logged := [(INFO, Checking_hat 7)]\<rparr>)"
    by (simp add: update_db_hat_def answering_def keeper_caching_def and_then_def call_def
        get_hat_doc_def hat_doc_def tinydb_get_def update_doc_def tinydb_update_def returns_def)
  then have done_leader: "sent (snd (process_block (answering 7 ?b ''0xA1'' 0 False True None)
       (keeper_caching ?h))) = sent (keeper_caching ?h)"
    using guards_submit_nothing [of "answering 7 ?b ''0xA1'' 0 False True None"
        "keeper_caching ?h" 7 "()" _ ?h]
    by (simp add: answering_def hat_doc_def tinydb_get_def)
  have "update_db_hat (answering 7 ?b zero_address 0 False True None) 7
          ((keeper_caching ?z)\<lparr>web3 := (),
             logged := logged (keeper_caching ?z) @ [(INFO, Checking_hat 7)]\<rparr>)
        = (Inr (), (keeper_caching ?z)\<lparr>db := Some [\<lparr>last_block_checked = Some 7, hat = None\<rparr>,
                            \<lparr>last_block_checked = None, hat = Some ?z\<rparr>],
                logged := [(INFO, Checking_hat 7)]\<rparr>)"
    by (simp add: update_db_hat_def answering_def keeper_caching_def and_then_def call_def
        get_hat_doc_def hat_doc_def tinydb_get_def update_doc_def tinydb_update_def returns_def)
  then have null_leader: "sent (snd (process_block
       (answering 7 ?b zero_address 0 False True None) (keeper_caching ?z)))
       = sent (keeper_caching ?z)"
    using guards_submit_nothing [of "answering 7 ?b zero_address 0 False True None"
        "keeper_caching ?z" 7 "()" _ ?z]
    by (simp add: answering_def hat_doc_def tinydb_get_def)
  show ?thesis
    using done_leader null_leader by (simp add: keeper_caching_def)
qed

text \<open>The two branches of \<open>process_block\<close>: with the budget used up the keeper
  terminates and runs no monitor; otherwise \<open>check_hat\<close> runs and, if it returns,
  \<open>check_eta\<close> after it.\<close>

lemma process_block_budget_used_up:
  "max_errors s \<le> errors s \<Longrightarrow> process_block cv s = (Inr (), s\<lparr>terminated := True\<rparr>)"
  by (simp add: process_block_def)

lemma process_block_runs_monitors:
  "errors s < max_errors s \<Longrightarrow>
   process_block cv s = and_then (check_hat cv) (\<lambda>_. check_eta cv) s"
  by (simp add: process_block_def)

text \<open>
  Claim C9, on the keeper that has counted no error and allows 100, with the leader and
  the block of the theorem above: \<open>check_hat\<close> returns (it logs that the hat is not a
  contract), \<open>check_eta\<close> raises, and the exception leaves \<open>process_block\<close> with the
  counter still at 0. (No statement of the keeper writes the counter: lemma
  \<open>process_block_errors\<close>.)
\<close>

theorem process_block_raises_uncounted:
  "process_block (answering 7 (Some \<lparr>timestamp = 100\<rparr>) ''0xA1'' 100 False False None)
     (keeper_caching \<lparr>address = ''0xA1'', eta = 100, hat_done = False\<rparr>)
   = (Inl AttributeError,
      \<lparr>web3 = (),
       db = Some [\<lparr>last_block_checked = Some 7, hat = None\<rparr>,
                  \<lparr>last_block_checked = None,
                   hat = Some \<lparr>address = ''0xA1'', eta = 100, hat_done = False\<rparr>\<rparr>],
       errors = 0, max_errors = 100, terminated = False, sent = [],
       logged = [(INFO, Checking_hat 7),
                 (INFO, Not_a_contract \<lparr>address = ''0xA1'', eta = 100, hat_done = False\<rparr>),
                 (INFO, Checking_scheduled 7)]\<rparr>)"
  by (simp add: process_block_def check_hat_def check_hat_tail_def update_db_hat_def
      check_eta_def answering_def keeper_caching_def and_then_def call_def get_hat_doc_def hat_doc_def tinydb_get_def
      zero_address_def raise_def returns_def update_doc_def tinydb_update_def logger_def)

section \<open>Every end of a method\<close>

lemma ensuresD: "ensures Q m P \<Longrightarrow> Q s \<Longrightarrow> P (snd (m s))"
  by (simp add: ensures_def)

lemma ensures_and_then:
  assumes "ensures Q m Q" and "\<And>x. ensures Q (f x) P" and "\<And>s. Q s \<Longrightarrow> P s"
  shows "ensures Q (and_then m f) P"
  unfolding ensures_def
proof (intro allI impI)
  fix s assume "Q s"
  obtain r s' where ms: "m s = (r, s')" by (cases "m s")
  then have "Q s'" using assms(1) \<open>Q s\<close> by (auto simp: ensures_def dest: spec [of _ s])
  then show "P (snd (and_then m f s))"
    using ms assms(2,3) by (cases r) (auto simp: and_then_def ensures_def)
qed

lemma ensures_if:
  "(c \<Longrightarrow> ensures Q A P) \<Longrightarrow> (\<not> c \<Longrightarrow> ensures Q B P) \<Longrightarrow> ensures Q (if c then A else B) P"
  by simp

lemma ensures_case_option:
  "(x = None \<Longrightarrow> ensures Q A P) \<Longrightarrow> (\<And>b. x = Some b \<Longrightarrow> ensures Q (B b) P) \<Longrightarrow>
   ensures Q (case x of None \<Rightarrow> A | Some b \<Rightarrow> B b) P"
  by (cases x) simp_all

lemma ensures_call:
  "(\<And>s w. Q s \<Longrightarrow> P (s\<lparr>web3 := w\<rparr>)) \<Longrightarrow> ensures Q (call q) P"
  by (auto simp: ensures_def call_def split: prod.splits)

lemma ensures_logger:
  "(\<And>s. Q s \<Longrightarrow> P (s\<lparr>logged := logged s @ [(l, m)]\<rparr>)) \<Longrightarrow> ensures Q (logger l m) P"
  by (simp add: ensures_def logger_def)

lemma ensures_returns: "(\<And>s. Q s \<Longrightarrow> P s) \<Longrightarrow> ensures Q (returns x) P"
  by (simp add: ensures_def returns_def)

lemma ensures_raise: "(\<And>s. Q s \<Longrightarrow> P s) \<Longrightarrow> ensures Q (raise e) P"
  by (simp add: ensures_def raise_def)

lemma ensures_submit:
  "(\<And>s w. Q s \<Longrightarrow> P (s\<lparr>sent := sent s @ [t], web3 := w\<rparr>)) \<Longrightarrow> ensures Q (submit cv t) P"
  by (auto simp: ensures_def submit_def call_def split: prod.splits)

lemma ensures_get_eta_in_unix:
  "(\<And>s w. Q s \<Longrightarrow> P (s\<lparr>web3 := w\<rparr>)) \<Longrightarrow> ensures Q (get_eta_in_unix cv sp) P"
  by (simp add: get_eta_in_unix_def ensures_call)

lemma ensures_with_hat:
  assumes "ensures (\<lambda>s. hat_doc (db s) = Inr h) (f h) P"
  shows "ensures (\<lambda>s. hat_doc (db s) = Inr h) (and_then get_hat_doc f) P"
  using assms by (simp add: ensures_def and_then_get_hat_doc)

lemma ensures_update_db_hat_done:
  "(\<And>s. hat_doc (db s) = Inr (h\<lparr>hat_done := d\<rparr>) \<Longrightarrow> P s) \<Longrightarrow>
   ensures (\<lambda>s. hat_doc (db s) = Inr h) (update_db_hat_done d) P"
  by (simp add: ensures_def update_db_hat_done_hat(2))

lemma ensures_update_db_hat_eat:
  "(\<And>s. hat_doc (db s) = Inr (h\<lparr>eta := e\<rparr>) \<Longrightarrow> P s) \<Longrightarrow>
   ensures (\<lambda>s. hat_doc (db s) = Inr h) (update_db_hat_eat e) P"
  by (simp add: ensures_def update_db_hat_eat_hat(2))

lemmas ensures_intros =
  ensures_and_then ensures_if ensures_case_option ensures_call ensures_logger
  ensures_returns ensures_raise ensures_submit ensures_get_eta_in_unix ensures_with_hat
  ensures_update_db_hat_done ensures_update_db_hat_eat

lemma check_eta_hat:
  "ensures (\<lambda>s. hat_doc (db s) = Inr h) (check_eta cv)
     (\<lambda>s'. hat_doc (db s') = Inr h
        \<or> (eta h \<noteq> 0 \<and> hat_doc (db s') = Inr (h\<lparr>hat_done := True\<rparr>)))"
  unfolding check_eta_def
  by (intro ensures_with_hat ensures_intros) simp_all

lemma check_hat_tail_hat:
  "ensures (\<lambda>s. hat_doc (db s) = Inr h) (check_hat_tail cv)
     (\<lambda>s'. hat_doc (db s') = Inr h
        \<or> (\<exists>e. 0 < e \<and> hat_doc (db s') = Inr (h\<lparr>eta := e\<rparr>)))"
  unfolding check_hat_tail_def
  by (intro ensures_with_hat ensures_intros) (simp_all, blast+)

section \<open>The state store\<close>

subsection \<open>Reconciling the cached leader\<close>

lemma call_db: "db (snd (call q s)) = db s"
  by (simp add: call_def split: prod.splits)

lemma update_doc_checkpoint:
  "hat_doc (db (snd (update_doc (\<lambda>doc. doc\<lparr>last_block_checked := x\<rparr>) 1 s))) = hat_doc (db s)"
  by (auto simp: update_doc_def tinydb_update_def tinydb_get_def hat_doc_def nth_list_update
      split: option.splits sum.splits)

lemma update_db_hat_hat:
  "hat_doc (db (snd (update_db_hat cv n s))) = hat_doc (db s)
   \<or> (\<exists>a w1 e w2 d w3. get_hat cv (web3 s) = (Inr a, w1) \<and> spell_eta cv a w1 = (Inr e, w2)
        \<and> spell_done cv a w2 = (Inr d, w3)
        \<and> hat_doc (db (snd (update_db_hat cv n s))) = Inr \<lparr>address = a, eta = e, hat_done = d\<rparr>)"
proof (cases "get_hat cv (web3 s)")
  case (Pair r w1)
  show ?thesis
  proof (cases r)
    case (Inl e)
    then show ?thesis using Pair by (simp add: update_db_hat_def and_then_def call_def)
  next
    case (Inr a)
    note hat = Pair [unfolded Inr]
    show ?thesis
    proof (cases "hat_doc (db s)")
      case (Inl e)
      then show ?thesis
        using hat by (simp add: update_db_hat_def and_then_call) (simp add: and_then_def get_hat_doc_def)
    next
      case (Inr h)
      let ?s1 = "s\<lparr>web3 := w1\<rparr>"
      have h1: "hat_doc (db ?s1) = Inr h" using Inr by simp
      show ?thesis
      proof (cases "address h = a")
        case True
        then show ?thesis
          using hat h1 Inr update_doc_checkpoint [of "Some n" ?s1]
          by (simp add: update_db_hat_def and_then_call and_then_get_hat_doc)
      next
        case False
        obtain re w2 where e: "spell_eta cv a w1 = (re, w2)" by (cases "spell_eta cv a w1")
        obtain rd w3 where d: "spell_done cv a w2 = (rd, w3)" by (cases "spell_done cv a w2")
        show ?thesis
        proof (cases re)
          case (Inl x)
          then show ?thesis
            using hat h1 Inr False e
            by (simp add: update_db_hat_def and_then_call and_then_get_hat_doc get_eta_in_unix_def)
               (simp add: and_then_def call_def)
        next
          case (Inr ev)
          note e' = e [unfolded Inr]
          show ?thesis
          proof (cases rd)
            case (Inl x)
            then show ?thesis
              using hat h1 \<open>hat_doc (db s) = Inr h\<close> False e' d
              by (simp add: update_db_hat_def and_then_call and_then_get_hat_doc get_eta_in_unix_def)
                 (simp add: and_then_def call_def)
          next
            case (Inr dv)
            note d' = d [unfolded Inr]
            let ?s3 = "s\<lparr>web3 := w3\<rparr>"
            have h3: "hat_doc (db ?s3) = Inr h" using \<open>hat_doc (db s) = Inr h\<close> by simp
            obtain s4 where s4: "update_doc (\<lambda>doc. doc\<lparr>hat := Some \<lparr>address = a, eta = ev, hat_done = dv\<rparr>\<rparr>) 2 ?s3 = (Inr (), s4)"
              and h4: "hat_doc (db s4) = Inr \<lparr>address = a, eta = ev, hat_done = dv\<rparr>"
              using update_doc_hat [OF h3] by blast
            have "update_db_hat cv n s = update_doc (\<lambda>doc. doc\<lparr>last_block_checked := Some n\<rparr>) 1 s4"
              using hat h1 False e' d' s4
              by (simp add: update_db_hat_def and_then_call and_then_get_hat_doc get_eta_in_unix_def)
                 (simp add: and_then_def call_def)
            then have "hat_doc (db (snd (update_db_hat cv n s))) = Inr \<lparr>address = a, eta = ev, hat_done = dv\<rparr>"
              using update_doc_checkpoint [of "Some n" s4] h4 by simp
            then show ?thesis using hat e' d' by blast
          qed
        qed
      qed
    qed
  qed
qed

lemma update_db_hat_same:
  assumes "get_hat cv (web3 s) = (Inr a, w1)" and "hat_doc (db s) = Inr h" and "address h = a"
  shows "hat_doc (db (snd (update_db_hat cv n s))) = Inr h"
proof -
  let ?s1 = "s\<lparr>web3 := w1\<rparr>"
  have h1: "hat_doc (db ?s1) = Inr h" using assms(2) by simp
  show ?thesis
    using assms h1 update_doc_checkpoint [of "Some n" ?s1]
    by (simp add: update_db_hat_def and_then_call and_then_get_hat_doc)
qed

lemma update_db_hat_changed:
  assumes "get_hat cv (web3 s) = (Inr a, w1)" and "hat_doc (db s) = Inr h" and "address h \<noteq> a"
    and "fst (update_db_hat cv n s) = Inr ()"
  shows "\<exists>e w2 d w3. spell_eta cv a w1 = (Inr e, w2) \<and> spell_done cv a w2 = (Inr d, w3)
     \<and> hat_doc (db (snd (update_db_hat cv n s))) = Inr \<lparr>address = a, eta = e, hat_done = d\<rparr>"
proof -
  let ?s1 = "s\<lparr>web3 := w1\<rparr>"
  have h1: "hat_doc (db ?s1) = Inr h" using assms(2) by simp
  obtain re w2 where e: "spell_eta cv a w1 = (re, w2)" by (cases "spell_eta cv a w1")
  obtain rd w3 where d: "spell_done cv a w2 = (rd, w3)" by (cases "spell_done cv a w2")
  have run: "update_db_hat cv n s =
      and_then (and_then (call (spell_eta cv a)) (\<lambda>e. and_then (call (spell_done cv a)) (\<lambda>d.
          update_doc (\<lambda>doc. doc\<lparr>hat := Some \<lparr>address = a, eta = e, hat_done = d\<rparr>\<rparr>) 2)))
        (\<lambda>_. update_doc (\<lambda>doc. doc\<lparr>last_block_checked := Some n\<rparr>) 1) ?s1"
    using assms(1,3) h1
    by (simp add: update_db_hat_def and_then_call and_then_get_hat_doc get_eta_in_unix_def)
  obtain ev where ev: "re = Inr ev"
    using assms(4) e unfolding run by (cases re) (simp_all add: and_then_def call_def)
  obtain dv where dv: "rd = Inr dv"
    using assms(4) e d ev unfolding run by (cases rd) (simp_all add: and_then_def call_def)
  let ?s3 = "s\<lparr>web3 := w3\<rparr>"
  have h3: "hat_doc (db ?s3) = Inr h" using assms(2) by simp
  obtain s4 where s4: "update_doc (\<lambda>doc. doc\<lparr>hat := Some \<lparr>address = a, eta = ev, hat_done = dv\<rparr>\<rparr>) 2 ?s3 = (Inr (), s4)"
    and h4: "hat_doc (db s4) = Inr \<lparr>address = a, eta = ev, hat_done = dv\<rparr>"
    using update_doc_hat [OF h3] by blast
  have "update_db_hat cv n s = update_doc (\<lambda>doc. doc\<lparr>last_block_checked := Some n\<rparr>) 1 s4"
    unfolding run using e d ev dv s4 by (simp add: and_then_def call_def)
  then have "hat_doc (db (snd (update_db_hat cv n s))) = Inr \<lparr>address = a, eta = ev, hat_done = dv\<rparr>"
    using update_doc_checkpoint [of "Some n" s4] h4 by simp
  then show ?thesis using e d ev dv by blast
qed

lemma address_kept_by_tail_and_eta:
  assumes "hat_doc (db s2) = Inr h2"
  shows "\<exists>h'. hat_doc (db (snd (and_then (check_hat_tail cv) (\<lambda>_. check_eta cv) s2))) = Inr h'
           \<and> address h' = address h2"
proof -
  let ?A = "\<lambda>s' :: 'a keeper. \<exists>h'. hat_doc (db s') = Inr h' \<and> address h' = address h2"
  obtain r s3 where t: "check_hat_tail cv s2 = (r, s3)" by (cases "check_hat_tail cv s2")
  have "?A s3"
    using ensuresD [OF check_hat_tail_hat, of s2 h2 cv] assms t by auto
  then obtain h3 where h3: "hat_doc (db s3) = Inr h3" and a3: "address h3 = address h2" by blast
  have "?A (snd (check_eta cv s3))"
    using ensuresD [OF check_eta_hat, of s3 h3 cv] h3 a3 by auto
  then show ?thesis
    using t \<open>?A s3\<close> by (cases r) (simp_all add: and_then_def)
qed

text \<open>
  Claim C5, as the code has it. The keeper is within its error budget, the chain reports
  the leader \<open>a\<close> to \<open>update_db_hat\<close>, which returns, and \<open>h\<close> was the cached
  record. Then after the block the cached leader address is \<open>a\<close>, however the block
  ends. If \<open>h\<close> already had the address \<open>a\<close>, \<open>update_db_hat\<close> leaves the record
  as it was; if not, it stores \<open>a\<close> with the eta and the done flag that the chain
  reports for \<open>a\<close>: the eta is 0 only when the chain says so.
\<close>
theorem leader_address_reconciled:
  assumes "errors s < max_errors s"
    and "blockNumber cv (web3 s) = (Inr n, w0)"
    and "get_hat cv w0 = (Inr a, w1)"
    and "hat_doc (db s) = Inr h"
    and "update_db_hat cv n (s\<lparr>web3 := w0, logged := logged s @ [(INFO, Checking_hat n)]\<rparr>)
           = (Inr (), s2)"
  shows "(\<exists>h'. hat_doc (db (snd (process_block cv s))) = Inr h' \<and> address h' = a)
       \<and> (address h = a \<longrightarrow> hat_doc (db s2) = Inr h)
       \<and> (address h \<noteq> a \<longrightarrow>
            (\<exists>e w2 d w3. spell_eta cv a w1 = (Inr e, w2) \<and> spell_done cv a w2 = (Inr d, w3)
               \<and> hat_doc (db s2) = Inr \<lparr>address = a, eta = e, hat_done = d\<rparr>))"
proof -
  let ?s1 = "s\<lparr>web3 := w0, logged := logged s @ [(INFO, Checking_hat n)]\<rparr>"
  have g: "get_hat cv (web3 ?s1) = (Inr a, w1)" using assms(3) by simp
  have h1: "hat_doc (db ?s1) = Inr h" using assms(4) by simp
  have ok: "fst (update_db_hat cv n ?s1) = Inr ()" and s2: "snd (update_db_hat cv n ?s1) = s2"
    using assms(5) by simp_all
  have same: "address h = a \<longrightarrow> hat_doc (db s2) = Inr h"
    using update_db_hat_same [OF g h1, of n] s2 by simp
  have changed: "address h \<noteq> a \<longrightarrow>
            (\<exists>e w2 d w3. spell_eta cv a w1 = (Inr e, w2) \<and> spell_done cv a w2 = (Inr d, w3)
               \<and> hat_doc (db s2) = Inr \<lparr>address = a, eta = e, hat_done = d\<rparr>)"
    using update_db_hat_changed [OF g h1 _ ok] s2 by simp
  obtain h2 where h2: "hat_doc (db s2) = Inr h2" and a2: "address h2 = a"
    using same changed by (cases "address h = a") auto
  have hat: "check_hat cv s = check_hat_tail cv s2"
    using assms(2,5)
    by (simp add: check_hat_def and_then_call and_then_def [of "update_db_hat cv n"])
  have "process_block cv s = and_then (check_hat_tail cv) (\<lambda>_. check_eta cv) s2"
    using assms(1) hat by (simp add: process_block_def and_then_def)
  then have "\<exists>h'. hat_doc (db (snd (process_block cv s))) = Inr h' \<and> address h' = a"
    using address_kept_by_tail_and_eta [OF h2, of cv] a2 by simp
  then show ?thesis using same changed by blast
qed

theorem leader_address_reconciled_witness:
  "(\<exists>h'. hat_doc (db (snd (process_block
        (answering 7 (Some \<lparr>timestamp = 100\<rparr>) ''0xB2'' 500 False True None)
        (keeper_caching \<lparr>address = ''0xA1'', eta = 0, hat_done = False\<rparr>)))) = Inr h'
      \<and> address h' = ''0xB2'')
   \<and> (\<exists>h'. hat_doc (db (snd (process_block
        (answering 7 (Some \<lparr>timestamp = 100\<rparr>) ''0xA1'' 500 False True None)
        (keeper_caching \<lparr>address = ''0xA1'', eta = 900, hat_done = False\<rparr>)))) = Inr h'
      \<and> address h' = ''0xA1'')"
proof -
  let ?b = "Some \<lparr>timestamp = 100\<rparr>"
  let ?h = "\<lparr>address = ''0xA1'', eta = 0, hat_done = False\<rparr>"
  let ?k = "\<lparr>address = ''0xA1'', eta = 900, hat_done = False\<rparr>"
  have "update_db_hat (answering 7 ?b ''0xB2'' 500 False True None) 7
          ((keeper_caching ?h)\<lparr>web3 := (),
             logged := logged (keeper_caching ?h) @ [(INFO, Checking_hat 7)]\<rparr>)
        = (Inr (), (keeper_caching ?h)\<lparr>db := Some [\<lparr>last_block_checked = Some 7, hat = None\<rparr>,
              \<lparr>last_block_checked = None,
               hat = Some \<lparr>address = ''0xB2'', eta = 500, hat_done = False\<rparr>\<rparr>],
            logged := [(INFO, Checking_hat 7)]\<rparr>)"
    by (simp add: update_db_hat_def answering_def keeper_caching_def and_then_def call_def
        get_hat_doc_def hat_doc_def tinydb_get_def update_doc_def tinydb_update_def returns_def
        get_eta_in_unix_def)
  then have changed: "\<exists>h'. hat_doc (db (snd (process_block
        (answering 7 ?b ''0xB2'' 500 False True None) (keeper_caching ?h)))) = Inr h'
      \<and> address h' = ''0xB2''"
    using leader_address_reconciled [of "keeper_caching ?h"
        "answering 7 ?b ''0xB2'' 500 False True None" 7 "()" "''0xB2''" "()" ?h]
    by (simp add: answering_def keeper_caching_def hat_doc_def tinydb_get_def)
  have "update_db_hat (answering 7 ?b ''0xA1'' 500 False True None) 7
          ((keeper_caching ?k)\<lparr>web3 := (),
             logged := logged (keeper_caching ?k) @ [(INFO, Checking_hat 7)]\<rparr>)
        = (Inr (), (keeper_caching ?k)\<lparr>db := Some [\<lparr>last_block_checked = Some 7, hat = None\<rparr>,
              \<lparr>last_block_checked = None, hat = Some ?k\<rparr>],
            logged := [(INFO, Checking_hat 7)]\<rparr>)"
    by (simp add: update_db_hat_def answering_def keeper_caching_def and_then_def call_def
        get_hat_doc_def hat_doc_def tinydb_get_def update_doc_def tinydb_update_def returns_def)
  then have same: "\<exists>h'. hat_doc (db (snd (process_block
        (answering 7 ?b ''0xA1'' 500 False True None) (keeper_caching ?k)))) = Inr h'
      \<and> address h' = ''0xA1''"
    using leader_address_reconciled [of "keeper_caching ?k"
        "answering 7 ?b ''0xA1'' 500 False True None" 7 "()" "''0xA1''" "()" ?k]
    by (simp add: answering_def keeper_caching_def hat_doc_def tinydb_get_def)
  show ?thesis
    using changed same by blast
qed

text \<open>
  Against claim C5 as stated: the cached leader is \<^verbatim>\<open>0xA1\<close> with eta 0, the chain's
  leader is now \<^verbatim>\<open>0xB2\<close>, whose action the chain reports scheduled for 500. After
  the block the cached address has changed to \<^verbatim>\<open>0xB2\<close> and the cached eta is 500,
  not 0.
\<close>
theorem new_leader_keeps_chain_eta:
  "process_block (answering 7 (Some \<lparr>timestamp = 100\<rparr>) ''0xB2'' 500 False True None)
     (keeper_caching \<lparr>address = ''0xA1'', eta = 0, hat_done = False\<rparr>)
   = (Inr (),
      \<lparr>web3 = (),
       db = Some [\<lparr>last_block_checked = Some 7, hat = None\<rparr>,
                  \<lparr>last_block_checked = None,
                   hat = Some \<lparr>address = ''0xB2'', eta = 500, hat_done = False\<rparr>\<rparr>],
       errors = 0, max_errors = 100, terminated = False, sent = [],
       logged = [(INFO, Checking_hat 7), (INFO, Checking_scheduled 7)]\<rparr>)"
  by (simp add: process_block_def check_hat_def check_hat_tail_def update_db_hat_def
      check_eta_def answering_def keeper_caching_def and_then_def call_def get_hat_doc_def
      hat_doc_def tinydb_get_def zero_address_def raise_def returns_def update_doc_def
      tinydb_update_def logger_def get_eta_in_unix_def)

subsection \<open>The invariant of the cached leader\<close>

lemma done_only_when_scheduledD:
  "done_only_when_scheduled cv \<Longrightarrow> spell_eta cv a w = (Inr 0, w') \<Longrightarrow>
   spell_done cv a w' = (Inr d, w'') \<Longrightarrow> \<not> d"
  unfolding done_only_when_scheduled_def by blast

lemma update_db_hat_ok:
  assumes "done_only_when_scheduled cv" and "cache_ok s"
  shows "cache_ok (snd (update_db_hat cv n s))"
  using update_db_hat_hat [of cv n s] assms(2)
  by (auto simp: cache_ok_def leader_inv_def dest: done_only_when_scheduledD [OF assms(1)])

lemma check_hat_tail_ok:
  assumes "cache_ok s"
  shows "cache_ok (snd (check_hat_tail cv s))"
proof (cases "hat_doc (db s)")
  case (Inl e)
  then show ?thesis
    by (simp add: check_hat_tail_def and_then_def get_hat_doc_def cache_ok_def)
next
  case (Inr h)
  then show ?thesis
    using ensuresD [OF check_hat_tail_hat, of s h cv] assms
    by (auto simp: cache_ok_def leader_inv_def)
qed

lemma check_eta_ok:
  assumes "cache_ok s"
  shows "cache_ok (snd (check_eta cv s))"
proof (cases "hat_doc (db s)")
  case (Inl e)
  then show ?thesis
    by (simp add: check_eta_def and_then_def get_hat_doc_def cache_ok_def)
next
  case (Inr h)
  then show ?thesis
    using ensuresD [OF check_eta_hat, of s h cv] assms
    by (auto simp: cache_ok_def leader_inv_def)
qed

lemma cache_ok_web3 [simp]: "cache_ok (s\<lparr>web3 := w\<rparr>) = cache_ok s"
  by (simp add: cache_ok_def)

lemma cache_ok_logged [simp]: "cache_ok (s\<lparr>logged := l\<rparr>) = cache_ok s"
  by (simp add: cache_ok_def)

lemma check_hat_ok:
  assumes "done_only_when_scheduled cv" and "cache_ok s"
  shows "cache_ok (snd (check_hat cv s))"
proof -
  have "ensures cache_ok (check_hat cv) cache_ok"
    unfolding check_hat_def
    by (intro ensures_and_then ensures_call ensures_logger)
      (simp_all add: ensures_def update_db_hat_ok [OF assms(1)] check_hat_tail_ok)
  then show ?thesis
    using assms(2) by (rule ensuresD)
qed

lemma process_block_ok:
  assumes "done_only_when_scheduled cv" and "cache_ok s"
  shows "cache_ok (snd (process_block cv s))"
proof (cases "errors s \<ge> max_errors s")
  case True
  then show ?thesis using assms(2) by (simp add: process_block_def cache_ok_def)
next
  case False
  have "ensures cache_ok (and_then (check_hat cv) (\<lambda>_. check_eta cv)) cache_ok"
    by (intro ensures_and_then) (simp_all add: ensures_def check_hat_ok [OF assms(1)] check_eta_ok)
  then show ?thesis using False assms(2) by (simp add: process_block_def ensures_def)
qed

lemma create_ok:
  assumes "done_only_when_scheduled cv" and "\<not> (isfile f \<and> access_R_OK f)" and "TinyDB f = Inr []"
  shows "cache_ok (snd (create cv f s))"
  using assms(2,3)
  by (auto simp: create_def and_then_def call_def returns_def get_eta_in_unix_def
      open_db_def insert_doc_def cache_ok_def hat_doc_def tinydb_get_def tinydb_insert_def
      leader_inv_def
      split: prod.splits sum.splits if_splits option.splits
      dest: done_only_when_scheduledD [OF assms(1)])

text \<open>
  Claim C6, as the code has it, on a chain that reports no action done while its eta
  reads 0. The record that \<open>create\<close> seeds in a new store satisfies the invariant
  \<open>leader_inv\<close> (eta 0 implies not done, for a leader other than the null-address),
  and a cached record that satisfies it still does after \<open>update_db_hat\<close>, after
  \<open>check_hat\<close>, after \<open>check_eta\<close> and after \<open>process_block\<close>, whether they
  return or raise.
\<close>

theorem stored_leader_invariant:
  assumes "done_only_when_scheduled cv"
  shows "(\<not> (isfile f \<and> access_R_OK f) \<and> TinyDB f = Inr [] \<longrightarrow>
            cache_ok (snd (create cv f s0)))
       \<and> (cache_ok s \<longrightarrow>
            cache_ok (snd (update_db_hat cv n s)) \<and> cache_ok (snd (check_hat cv s))
          \<and> cache_ok (snd (check_eta cv s)) \<and> cache_ok (snd (process_block cv s)))"
  using assms create_ok update_db_hat_ok check_hat_ok check_eta_ok process_block_ok
  by blast

theorem stored_leader_invariant_witness:
  "done_only_when_scheduled (answering 7 (Some \<lparr>timestamp = 100\<rparr>) ''0xA1'' 0 False True None)
   \<and> hat_doc (db (snd (create (answering 7 (Some \<lparr>timestamp = 100\<rparr>) ''0xA1'' 0 False True None)
         \<lparr>isfile = False, access_R_OK = False, TinyDB = Inr []\<rparr> keeper_starting)))
       = Inr \<lparr>address = ''0xA1'', eta = 0, hat_done = False\<rparr>
   \<and> cache_ok (snd (create (answering 7 (Some \<lparr>timestamp = 100\<rparr>) ''0xA1'' 0 False True None)
         \<lparr>isfile = False, access_R_OK = False, TinyDB = Inr []\<rparr> keeper_starting))
   \<and> cache_ok (keeper_caching \<lparr>address = ''0xA1'', eta = 0, hat_done = False\<rparr>)
   \<and> cache_ok (snd (process_block
         (answering 7 (Some \<lparr>timestamp = 100\<rparr>) ''0xA1'' 0 False True None)
         (keeper_caching \<lparr>address = ''0xA1'', eta = 0, hat_done = False\<rparr>)))"
proof -
  let ?cv = "answering 7 (Some \<lparr>timestamp = 100\<rparr>) ''0xA1'' 0 False True None"
  let ?f = "\<lparr>isfile = False, access_R_OK = False, TinyDB = Inr []\<rparr>"
  let ?h = "\<lparr>address = ''0xA1'', eta = 0, hat_done = False\<rparr>"
  have chain: "done_only_when_scheduled ?cv"
    by (simp add: done_only_when_scheduled_def answering_def)
  have seeded: "hat_doc (db (snd (create ?cv ?f keeper_starting))) = Inr ?h"
    by (simp add: create_def answering_def keeper_starting_def and_then_def call_def
        returns_def tinydb_insert_def get_eta_in_unix_def zero_address_def open_db_def
        insert_doc_def hat_doc_def tinydb_get_def)
  have cached: "cache_ok (keeper_caching ?h)"
    by (simp add: cache_ok_def keeper_caching_def hat_doc_def tinydb_get_def leader_inv_def)
  show ?thesis
    using stored_leader_invariant [OF chain, of ?f keeper_starting "keeper_caching ?h"]
      chain seeded cached
    by simp
qed

text \<open>
  Against claim C6 as stated: no store yet, and the chain's leader is the null-address.
  \<open>create\<close> seeds the record with eta 0 and done \<open>True\<close>.
\<close>
theorem bootstrap_null_leader_done:
  "create (answering 7 None zero_address 0 False False None)
     \<lparr>isfile = False, access_R_OK = False, TinyDB = Inr []\<rparr> keeper_starting
   = (Inr ''Either file is missing or is not readable, creating simple database'',
      keeper_starting
        \<lparr>db := Some [\<lparr>last_block_checked = Some 7, hat = None\<rparr>,
                     \<lparr>last_block_checked = None,
                      hat = Some \<lparr>address = zero_address, eta = 0, hat_done = True\<rparr>\<rparr>]\<rparr>)"
  by (simp add: create_def answering_def keeper_starting_def and_then_def call_def returns_def
      tinydb_insert_def open_db_def insert_doc_def)

subsection \<open>Opening the store\<close>

text \<open>A file that is not readable takes the branch of a missing file: what happens
  next is up to the library call that opens it.\<close>

lemma create_not_readable_branch:
  "\<not> access_R_OK f \<Longrightarrow> create cv f s = create cv (f\<lparr>isfile := False\<rparr>) s"
  by (simp add: create_def)



text \<open>The exception leaves \<open>initial_query\<close> as well: the startup of the keeper ends
  there, with the two lines logged before the database was touched and no handle.\<close>

lemma initial_query_unreadable_raises:
  assumes "isfile f" and "\<not> access_R_OK f" and "TinyDB f = Inl e"
  shows "initial_query cv f s =
     (Inl e, s\<lparr>db := None, logged := logged s @ [(INFO, Message ''''), (INFO, Message
       ''Querying DS-Chief state since last update ( !! Could take up to 15 minutes !! )'')]\<rparr>)"
  using assms
  by (simp add: initial_query_def new_database_def create_def raise_def and_then_def
      logger_def)

end
